theory Spec2Isabelle
  imports Complex_Main
begin

section \<open>Hydrogen orbital viewer: density model, key handler, regeneration scheduler\<close>

text \<open>
  The repository holds two versions of one program: \<^verbatim>\<open>Code/Multiple Orbitals.cpp\<close> (a
  catalogue of four orbitals, selectable by key) and a single-orbital version (the file
  \<^verbatim>\<open>part_000\<close>). Both are embedded here.

  Numbers: a value of the C++ type \<^verbatim>\<open>float\<close> is a \<^typ>\<open>real\<close>. The formulas of the
  wavefunction evaluator are embedded in exact arithmetic, with \<^verbatim>\<open>std::sqrt\<close>,
  \<^verbatim>\<open>std::exp\<close>, \<^verbatim>\<open>std::sin\<close>, \<^verbatim>\<open>std::cos\<close>, \<^verbatim>\<open>std::pow\<close> as the real functions
  \<^term>\<open>sqrt\<close>, \<^term>\<open>exp\<close>, \<^term>\<open>sin\<close>, \<^term>\<open>cos\<close> and \<open>powr\<close>: what is stated of them are
  the values the code approximates to single precision, and bounds that hold with a
  margin far above the rounding. Where the program branches on a computed \<^verbatim>\<open>float\<close>
  (the regeneration check), the model rounds as the program does: \<open>float32\<close> below is
  the rounding to the nearest single-precision number. The quantum numbers and the
  orbital index are C++ \<^verbatim>\<open>int\<close>s that are only compared and copied (one subtraction
  of key codes apart), so they are modelled by \<^typ>\<open>int\<close>.
\<close>

subsection \<open>Constants and parameters\<close>

definition PI :: real where
  "PI = 3.14159265359"

definition BOHR_RADIUS :: real where
  "BOHR_RADIUS = 1.0"

definition NUM_POINTS :: nat where
  "NUM_POINTS = 10000"

definition ROTATION_SPEED :: real where
  "ROTATION_SPEED = 0.01"

definition VIBRATION_FREQ :: real where
  "VIBRATION_FREQ = 0.1"

subsection \<open>Orbital definition\<close>

text \<open>
  \<^verbatim>\<open>sf::Vector3f\<close> and \<^verbatim>\<open>struct Orbital\<close>. The fields carry a prefix (\<open>vx\<close> for \<^verbatim>\<open>x\<close>,
  \<open>orb_n\<close> for \<^verbatim>\<open>n\<close>, ...) because a record field is a constant, and a constant named
  \<open>n\<close> or \<open>x\<close> would capture every variable of that name.
\<close>

record Vector3f =
  vx :: real
  vy :: real
  vz :: real

record Orbital =
  orb_n :: int
  orb_l :: int
  orb_m :: int
  orb_scale :: real
  orb_name :: string
  orb_color :: Vector3f

subsection \<open>Quantum functions\<close>

text \<open>\<^verbatim>\<open>real_spherical_harmonic\<close> of \<^verbatim>\<open>Multiple Orbitals.cpp\<close>.\<close>

definition real_spherical_harmonic :: "Orbital \<Rightarrow> real \<Rightarrow> real \<Rightarrow> real" where
  "real_spherical_harmonic orbital theta phi =
     (let l = orb_l orbital; m = orb_m orbital in
      if l = 0 \<and> m = 0 then 0.5 * sqrt (1.0 / PI)
      else if l = 1 \<and> m = 0 then sqrt (3.0 / (4.0 * PI)) * cos theta
      else if l = 1 \<and> m = 1 then - sqrt (3.0 / (4.0 * PI)) * sin theta * cos phi
      else if l = 1 \<and> m = - 1 then - sqrt (3.0 / (4.0 * PI)) * sin theta * sin phi
      else 0.0)"

text \<open>\<^verbatim>\<open>spherical_harmonic\<close> of the single-orbital version.\<close>

definition spherical_harmonic :: "int \<Rightarrow> int \<Rightarrow> real \<Rightarrow> real \<Rightarrow> real" where
  "spherical_harmonic l m theta phi =
     (if l = 0 \<and> m = 0 then 0.5 * sqrt (1.0 / PI)
      else if l = 1 \<and> m = 0 then sqrt (3.0 / (4.0 * PI)) * cos theta
      else if l = 1 \<and> m = 1 then - sqrt (3.0 / (8.0 * PI)) * sin theta * cos phi
      else if l = 1 \<and> m = - 1 then sqrt (3.0 / (8.0 * PI)) * sin theta * sin phi
      else 0.0)"

text \<open>\<^verbatim>\<open>radial_function\<close>: the same text in both versions.\<close>

definition radial_function :: "int \<Rightarrow> real \<Rightarrow> real" where
  "radial_function n r =
     (let a0 = BOHR_RADIUS in
      if n = 1 then 2.0 * exp (- r / a0) / (a0 powr 1.5)
      else if n = 2 then
        (1.0 / (2.0 * sqrt 2.0)) * (1.0 - r / (2.0 * a0)) * exp (- r / (2.0 * a0)) / (a0 powr 1.5)
      else 0.0)"

text \<open>\<^verbatim>\<open>probability_density\<close> of \<^verbatim>\<open>Multiple Orbitals.cpp\<close>.\<close>

definition probability_density :: "Orbital \<Rightarrow> real \<Rightarrow> real \<Rightarrow> real \<Rightarrow> real \<Rightarrow> real" where
  "probability_density orbital r theta phi time =
     (let R = radial_function (orb_n orbital) r;
          Y = real_spherical_harmonic orbital theta phi;
          psi = R * Y;
          vibration = 1.0 + 0.1 * sin (VIBRATION_FREQ * time)
      in psi * psi * vibration)"

text \<open>
  \<^verbatim>\<open>probability_density\<close> of the single-orbital version, which takes the three quantum
  numbers instead of the orbital.
\<close>

definition probability_density_nlm ::
  "int \<Rightarrow> int \<Rightarrow> int \<Rightarrow> real \<Rightarrow> real \<Rightarrow> real \<Rightarrow> real \<Rightarrow> real" where
  "probability_density_nlm n l m r theta phi time =
     (let R = radial_function n r;
          Y = spherical_harmonic l m theta phi;
          psi = R * Y;
          vibration = 1.0 + 0.1 * sin (VIBRATION_FREQ * time)
      in psi * psi * vibration)"

subsection \<open>Orbital point generator\<close>

text \<open>
  \<^verbatim>\<open>generate_orbital_points\<close> builds a random engine of its own (\<^verbatim>\<open>std::random_device\<close>,
  \<^verbatim>\<open>std::mt19937\<close> and four uniform distributions, all library code) and computes its
  candidates in single precision with the library's \<^verbatim>\<open>sin\<close> and \<^verbatim>\<open>cos\<close>. Its body is
  not embedded. What the main loop sees of a call is whether it returns and the points
  it returns: in the regeneration check below the call is a parameter, a function from
  the orbital and the time to \<open>Some\<close> points, or \<open>None\<close> for a call that does not return.
  \<open>max_prob\<close> is the rejection bound the body divides the density by.
\<close>

definition max_prob :: real where
  "max_prob = 1.0"

subsection \<open>Single-precision rounding\<close>

text \<open>
  Rounding of a real number to the nearest number of the IEEE 754 binary32 format, ties to
  the even significand: 24 significant bits, the smallest exponent -126 (below it the
  spacing stays \<open>2 powr (- 149)\<close>). Overflow is not modelled: beyond the largest
  binary32 number the function returns the rounded real where the format has infinity,
  which compares with \<open>0.5\<close> the same way.
\<close>

definition round_half_even :: "real \<Rightarrow> int" where
  "round_half_even x =
     (let f = \<lfloor>x\<rfloor>; d = x - of_int f in
      if d < 1 / 2 then f else if 1 / 2 < d then f + 1 else if even f then f else f + 1)"

definition float32 :: "real \<Rightarrow> real" where
  "float32 x =
     (if x = 0 then 0
      else
        (let e = max \<lfloor>log 2 \<bar>x\<bar>\<rfloor> (- 126);
             ulp = 2 powr (of_int e - 23)
         in of_int (round_half_even (x / ulp)) * ulp))"

subsection \<open>Main: the catalogue, the key handler and the regeneration check\<close>

definition orbitals :: "Orbital list" where
  "orbitals =
     [\<lparr>orb_n = 1, orb_l = 0, orb_m = 0, orb_scale = 2.0, orb_name = ''1s'',
        orb_color = \<lparr>vx = 1.0, vy = 0.0, vz = 0.0\<rparr>\<rparr>,
      \<lparr>orb_n = 2, orb_l = 1, orb_m = 1, orb_scale = 2.0, orb_name = ''2px'',
        orb_color = \<lparr>vx = 0.0, vy = 1.0, vz = 0.0\<rparr>\<rparr>,
      \<lparr>orb_n = 2, orb_l = 1, orb_m = - 1, orb_scale = 2.0, orb_name = ''2py'',
        orb_color = \<lparr>vx = 0.0, vy = 0.5, vz = 1.0\<rparr>\<rparr>,
      \<lparr>orb_n = 2, orb_l = 1, orb_m = 0, orb_scale = 2.0, orb_name = ''2pz'',
        orb_color = \<lparr>vx = 1.0, vy = 1.0, vz = 0.0\<rparr>\<rparr>]"

text \<open>The one orbital of the single-orbital version.\<close>

definition orbital_single :: Orbital where
  "orbital_single =
     \<lparr>orb_n = 1, orb_l = 0, orb_m = 0, orb_scale = 2.0, orb_name = ''1s'',
      orb_color = \<lparr>vx = 1.0, vy = 0.0, vz = 0.0\<rparr>\<rparr>"

text \<open>
  Events, as far as \<^verbatim>\<open>main\<close> looks at them: the window was closed, a key was pressed
  (with \<^verbatim>\<open>event.key.code\<close>), anything else. \<open>Num1\<close> and \<open>Num4\<close> are the values of
  \<^verbatim>\<open>sf::Keyboard::Num1\<close> and \<^verbatim>\<open>sf::Keyboard::Num4\<close> in the SFML 2 enumeration
  (\<^verbatim>\<open>A\<close> is 0, \<^verbatim>\<open>Num0\<close> is 26); the handler depends only on the four number keys being
  consecutive.
\<close>

datatype Event = Closed | KeyPressed int | Other_Event

definition Num1 :: int where
  "Num1 = 27"

definition Num4 :: int where
  "Num4 = 30"

text \<open>
  The variables of \<^verbatim>\<open>main\<close> that the event loop and the regeneration check read and
  write, with the text written to \<^verbatim>\<open>std::cout\<close>.
\<close>

record State =
  window_open :: bool
  current_orbital :: int
  points :: "Vector3f list"
  angle :: real
  last_generation_time :: real
  console :: "string list"

definition initial_state :: State where
  "initial_state =
     \<lparr>window_open = True, current_orbital = 0, points = [], angle = 0.0,
      last_generation_time = - 100.0, console = []\<rparr>"

text \<open>
  The body of the \<^verbatim>\<open>pollEvent\<close> loop. The comparison \<^verbatim>\<open>index < orbitals.size()\<close> is
  between an \<^verbatim>\<open>int\<close> and a \<^verbatim>\<open>size_t\<close>, so \<^verbatim>\<open>index\<close> is converted to the unsigned type
  first (64 bits here).
\<close>

definition handle_event :: "State \<Rightarrow> Event \<Rightarrow> State" where
  "handle_event st event =
     (case event of
        Closed \<Rightarrow> st\<lparr>window_open := False\<rparr>
      | KeyPressed code \<Rightarrow>
          if Num1 \<le> code \<and> code \<le> Num4 then
            (let index = code - Num1 in
             if index mod 2 ^ 64 < int (length orbitals) then
               st\<lparr>current_orbital := index,
                  console := console st @
                    [''Switched to orbital: '' @ orb_name (orbitals ! nat index) @ [CHR 0x0A]],
                  last_generation_time := - 100.0\<rparr>
             else st)
          else st
      | Other_Event \<Rightarrow> st)"

definition poll_events :: "State \<Rightarrow> Event list \<Rightarrow> State" where
  "poll_events st events = foldl handle_event st events"

text \<open>
  The regeneration check (\<^verbatim>\<open>if (time - last_generation_time > 0.5f)\<close>). The difference
  of the two \<^verbatim>\<open>float\<close>s is a \<^verbatim>\<open>float\<close>: the rounded difference is what is compared
  with \<open>0.5\<close>. The check returns the next state, or does not return because the call
  of the generator does not, or reads \<^verbatim>\<open>orbitals[current_orbital]\<close> out of range
  (undefined behaviour in C++).
\<close>

datatype 'a outcome = Returns 'a | Hangs | Out_Of_Range

definition regeneration_check ::
  "State \<Rightarrow> real \<Rightarrow> (Orbital \<Rightarrow> real \<Rightarrow> Vector3f list option) \<Rightarrow> State outcome" where
  "regeneration_check st time generate_orbital_points =
     (if float32 (time - last_generation_time st) > 0.5 then
        (if 0 \<le> current_orbital st \<and> current_orbital st < int (length orbitals) then
           (case generate_orbital_points (orbitals ! nat (current_orbital st)) time of
              None \<Rightarrow> Hangs
            | Some new_points \<Rightarrow>
                Returns (st\<lparr>points := new_points, last_generation_time := time\<rparr>))
         else Out_Of_Range)
      else Returns st)"

text \<open>
  One iteration of the main loop up to the regeneration check: the pending events, the
  clock reading \<open>time\<close>, the camera angle, the check. Rendering is not modelled.
\<close>

definition frame ::
  "State \<Rightarrow> Event list \<Rightarrow> real \<Rightarrow> (Orbital \<Rightarrow> real \<Rightarrow> Vector3f list option) \<Rightarrow> State outcome"
  where
  "frame st events time generate_orbital_points =
     (let st1 = poll_events st events;
          st2 = st1\<lparr>angle := angle st1 + ROTATION_SPEED\<rparr>
      in regeneration_check st2 time generate_orbital_points)"

text \<open>
  The states at the head of the main loop (\<^verbatim>\<open>while (window.isOpen())\<close>): the initial one,
  and the one a frame returns when the window is open.
\<close>

inductive reachable :: "State \<Rightarrow> bool" where
  reachable_initial: "reachable initial_state"
| reachable_frame:
    "reachable st \<Longrightarrow> window_open st \<Longrightarrow>
     frame st events time generate_orbital_points = Returns st' \<Longrightarrow> reachable st'"

text \<open>
  The regeneration check of the single-orbital version: the same test, on the one
  orbital; its state is the pair of \<^verbatim>\<open>points\<close> and \<^verbatim>\<open>last_generation_time\<close>.
\<close>

definition regeneration_check_single ::
  "Vector3f list \<times> real \<Rightarrow> real \<Rightarrow> (Orbital \<Rightarrow> real \<Rightarrow> Vector3f list option)
    \<Rightarrow> (Vector3f list \<times> real) outcome" where
  "regeneration_check_single st time generate_orbital_points =
     (if float32 (time - snd st) > 0.5 then
        (case generate_orbital_points orbital_single time of
           None \<Rightarrow> Hangs
         | Some new_points \<Rightarrow> Returns (new_points, time))
      else Returns st)"

section \<open>Properties\<close>

lemma PI_pos: "0 < PI"
  by (simp add: PI_def)

subsection \<open>The wavefunction evaluator\<close>

lemma BOHR_powr [simp]: "BOHR_RADIUS powr 1.5 = 1"
  by (simp add: BOHR_RADIUS_def)

lemma radial_function_1: "radial_function 1 r = 2 * exp (- r)"
  by (simp add: radial_function_def BOHR_RADIUS_def)

lemma radial_function_2: "radial_function 2 r = (1 / (2 * sqrt 2)) * (1 - r / 2) * exp (- r / 2)"
  by (simp add: radial_function_def BOHR_RADIUS_def)

lemma radial_function_other: "n \<noteq> 1 \<Longrightarrow> n \<noteq> 2 \<Longrightarrow> radial_function n r = 0"
  by (simp add: radial_function_def)

lemma sin_half_pos: "0 < sin (1 / 2 :: real)"
  using pi_ge_two by (intro sin_gt_zero2) simp_all

lemma cos_half_pos: "0 < cos (1 / 2 :: real)"
  using pi_ge_two by (intro cos_gt_zero) simp_all

lemma sin_one_pos: "0 < sin (1::real)"
  using pi_ge_two by (intro sin_gt_zero) simp_all

text \<open>
  Claim C2. For every orbital, spherical coordinate and time, the density is
  \<open>psi\<^sup>2 * (1 + 0.1 * sin (omega * t))\<close>, where \<open>psi\<close> is the product of the radial
  amplitude at \<open>(n, r)\<close> and the angular amplitude at \<open>(l, m, theta, phi)\<close>, and
  \<open>omega\<close> is the constant \<open>VIBRATION_FREQ\<close>. Stated for the density of each version.
\<close>

theorem density_formula:
  "probability_density orbital r theta phi time =
     (radial_function (orb_n orbital) r * real_spherical_harmonic orbital theta phi)\<^sup>2
       * (1 + 0.1 * sin (VIBRATION_FREQ * time))
   \<and> probability_density_nlm n l m r theta phi time =
     (radial_function n r * spherical_harmonic l m theta phi)\<^sup>2
       * (1 + 0.1 * sin (VIBRATION_FREQ * time))
   \<and> VIBRATION_FREQ = 0.1"
  by (simp add: probability_density_def probability_density_nlm_def Let_def power2_eq_square
      VIBRATION_FREQ_def)

lemma vibration_bounds: "0.9 \<le> 1 + 0.1 * sin x" "1 + 0.1 * sin x \<le> (1.1::real)"
  using sin_ge_minus_one [of x] sin_le_one [of x] by linarith+

text \<open>
  Claim C6. For every orbital (supported or not), every coordinate and every time the
  density is non-negative, and the vibration factor is strictly positive. Stated for
  the density of each version.
\<close>

theorem density_nonneg:
  "0 \<le> probability_density orbital r theta phi time
   \<and> 0 \<le> probability_density_nlm n l m r theta phi time
   \<and> 0 < 1 + 0.1 * sin (VIBRATION_FREQ * time)"
proof -
  have v: "0 < 1 + 0.1 * sin (VIBRATION_FREQ * time)"
    using vibration_bounds(1) [of "VIBRATION_FREQ * time"] by simp
  then show ?thesis
    by (simp add: probability_density_def probability_density_nlm_def Let_def)
qed

text \<open>
  Claim C3. The radial amplitude is \<open>0\<close> for every \<open>n\<close> other than 1 and 2, and the
  angular amplitude (of either version) is \<open>0\<close> for every \<open>(l, m)\<close> outside the four
  cases \<open>(0,0)\<close>, \<open>(1,0)\<close>, \<open>(1,1)\<close>, \<open>(1,-1)\<close>, whatever the other arguments are.
  Inside the table the amplitudes are not trivial: the radial amplitude has the closed
  forms below and is not \<open>0\<close> at \<open>r = 0\<close>, and each angular amplitude is not \<open>0\<close> at
  \<open>theta = phi = 1/2\<close>.
\<close>

theorem amplitudes_table:
  "(n \<noteq> 1 \<and> n \<noteq> 2 \<longrightarrow> radial_function n r = 0)
   \<and> ((orb_l orbital, orb_m orbital) \<notin> {(0, 0), (1, 0), (1, 1), (1, - 1)} \<longrightarrow>
        real_spherical_harmonic orbital theta phi = 0)
   \<and> ((l, m) \<notin> {(0, 0), (1, 0), (1, 1), (1, - 1)} \<longrightarrow> spherical_harmonic l m theta phi = 0)
   \<and> radial_function 1 r = 2 * exp (- r)
   \<and> radial_function 2 r = (1 / (2 * sqrt 2)) * (1 - r / 2) * exp (- r / 2)
   \<and> radial_function 1 0 \<noteq> 0 \<and> radial_function 2 0 \<noteq> 0
   \<and> ((l, m) \<in> {(0, 0), (1, 0), (1, 1), (1, - 1)} \<longrightarrow>
        spherical_harmonic l m (1 / 2) (1 / 2) \<noteq> 0
        \<and> (orb_l orbital = l \<and> orb_m orbital = m \<longrightarrow> real_spherical_harmonic orbital (1 / 2) (1 / 2) \<noteq> 0))"
proof -
  have s: "sqrt (3 / (4 * PI)) \<noteq> 0" "sqrt (3 / (8 * PI)) \<noteq> 0" "sqrt (1 / PI) \<noteq> 0"
    using PI_pos by simp_all
  have c: "cos (1 / 2 :: real) \<noteq> 0"
    using cos_half_pos by simp
  have t: "sin (1 / 2 :: real) \<noteq> 0"
    using sin_half_pos by simp
  have r0: "n \<noteq> 1 \<and> n \<noteq> 2 \<longrightarrow> radial_function n r = 0"
    by (simp add: radial_function_other)
  have y0: "(orb_l orbital, orb_m orbital) \<notin> {(0, 0), (1, 0), (1, 1), (1, - 1)} \<longrightarrow>
        real_spherical_harmonic orbital theta phi = 0"
    by (simp add: real_spherical_harmonic_def Let_def)
  have y0': "(l, m) \<notin> {(0, 0), (1, 0), (1, 1), (1, - 1)} \<longrightarrow> spherical_harmonic l m theta phi = 0"
    by (simp add: spherical_harmonic_def)
  have r1: "radial_function 1 0 \<noteq> 0" "radial_function 2 0 \<noteq> 0"
    by (simp_all add: radial_function_1 radial_function_2)
  have y1: "(l, m) \<in> {(0, 0), (1, 0), (1, 1), (1, - 1)} \<longrightarrow> spherical_harmonic l m (1 / 2) (1 / 2) \<noteq> 0"
    using s c t by (auto simp: spherical_harmonic_def)
  have y1': "(l, m) \<in> {(0, 0), (1, 0), (1, 1), (1, - 1)} \<longrightarrow>
      orb_l orbital = l \<and> orb_m orbital = m \<longrightarrow> real_spherical_harmonic orbital (1 / 2) (1 / 2) \<noteq> 0"
    using s c t by (auto simp: real_spherical_harmonic_def Let_def)
  note f = radial_function_1 [of r] radial_function_2 [of r]
  from r0 y0 y0' r1 y1 y1' f show ?thesis
    by blast
qed

text \<open>
  The theorem at \<open>n = 3\<close> and \<open>(l, m) = (2, 0)\<close> (outside the tables) and at
  \<open>(l, m) = (1, 1)\<close> (inside).
\<close>

theorem amplitudes_table_witness:
  "radial_function 3 1 = 0
   \<and> real_spherical_harmonic ((orbitals ! 0)\<lparr>orb_l := 2, orb_m := 0\<rparr>) 1 1 = 0
   \<and> spherical_harmonic 2 0 1 1 = 0
   \<and> spherical_harmonic 1 1 (1 / 2) (1 / 2) \<noteq> 0
   \<and> real_spherical_harmonic (orbitals ! 1) (1 / 2) (1 / 2) \<noteq> 0"
proof -
  let ?o = "(orbitals ! 0)\<lparr>orb_l := 2, orb_m := 0\<rparr>"
  have "radial_function 3 1 = 0" "real_spherical_harmonic ?o 1 1 = 0" "spherical_harmonic 2 0 1 1 = 0"
    using amplitudes_table [of 3 1 ?o 1 1 2 0] by simp_all
  moreover have "spherical_harmonic 1 1 (1 / 2) (1 / 2) \<noteq> 0"
    "real_spherical_harmonic (orbitals ! 1) (1 / 2) (1 / 2) \<noteq> 0"
    using amplitudes_table [of 3 1 "orbitals ! 1" 1 1 1 1] by (simp_all add: orbitals_def)
  ultimately show ?thesis by simp
qed

lemma sqrt2_square: "(sqrt 2 * y) * (sqrt 2 * y) = 2 * (y * y)" for y :: real
proof -
  have "(sqrt 2 * y) * (sqrt 2 * y) = (sqrt 2 * sqrt 2) * (y * y)" by (simp add: algebra_simps)
  then show ?thesis by simp
qed

lemma density_scaled:
  "(R * (c * y)) * (R * (c * y)) * v = (c * c) * ((R * y) * (R * y) * v)" for R :: real
  by (simp add: algebra_simps)

lemma sqrt_4_8: "sqrt (3 / (4 * PI)) = sqrt 2 * sqrt (3 / (8 * PI))"
proof -
  have "3 / (4 * PI) = 2 * (3 / (8 * PI))" by simp
  then show ?thesis by (simp only: real_sqrt_mult)
qed

text \<open>
  Claim C9 as stated fails: for the catalogue's second orbital (2px, \<open>(l, m) = (1, 1)\<close>)
  at \<open>theta = 1\<close>, \<open>phi = 0\<close> the two versions' angular amplitudes differ, and so do
  their densities at \<open>r = 0\<close>, \<open>t = 0\<close>.
\<close>

theorem harmonics_differ:
  "real_spherical_harmonic (orbitals ! 1) 1 0 \<noteq> spherical_harmonic 1 1 1 0
   \<and> probability_density (orbitals ! 1) 0 1 0 0 \<noteq> probability_density_nlm 2 1 1 0 1 0 0"
proof -
  have p: "0 < sqrt (3 / (8 * PI))" using PI_pos by simp
  have s2: "sqrt 2 \<noteq> (1::real)" by simp
  have t: "sin (1::real) \<noteq> 0" using sin_one_pos by simp
  have a: "real_spherical_harmonic (orbitals ! 1) 1 0 = sqrt 2 * spherical_harmonic 1 1 1 0"
    by (simp add: real_spherical_harmonic_def spherical_harmonic_def orbitals_def sqrt_4_8)
  have b: "spherical_harmonic 1 1 1 0 \<noteq> 0"
    using p t by (simp add: spherical_harmonic_def)
  from a b s2 have 1: "real_spherical_harmonic (orbitals ! 1) 1 0 \<noteq> spherical_harmonic 1 1 1 0"
    by simp
  have r: "radial_function 2 0 \<noteq> 0" by (simp add: radial_function_2)
  have "probability_density (orbitals ! 1) 0 1 0 0 = 2 * probability_density_nlm 2 1 1 0 1 0 0"
    unfolding probability_density_def probability_density_nlm_def Let_def a density_scaled
    by (simp add: orbitals_def)
  moreover have "probability_density_nlm 2 1 1 0 1 0 0 \<noteq> 0"
    using r b by (simp add: probability_density_nlm_def Let_def)
  ultimately have 2: "probability_density (orbitals ! 1) 0 1 0 0 \<noteq> probability_density_nlm 2 1 1 0 1 0 0"
    by simp
  from 1 2 show ?thesis by simp
qed

lemma harmonics_same:
  "(orb_l orbital, orb_m orbital) \<notin> {(1, 1), (1, - 1)} \<Longrightarrow>
   real_spherical_harmonic orbital theta phi = spherical_harmonic (orb_l orbital) (orb_m orbital) theta phi"
  by (auto simp: real_spherical_harmonic_def spherical_harmonic_def Let_def)

lemma harmonics_px:
  "orb_l orbital = 1 \<Longrightarrow> orb_m orbital = 1 \<Longrightarrow>
   real_spherical_harmonic orbital theta phi = sqrt 2 * spherical_harmonic 1 1 theta phi"
  by (simp add: real_spherical_harmonic_def spherical_harmonic_def Let_def sqrt_4_8)

lemma harmonics_py:
  "orb_l orbital = 1 \<Longrightarrow> orb_m orbital = - 1 \<Longrightarrow>
   real_spherical_harmonic orbital theta phi = - sqrt 2 * spherical_harmonic 1 (- 1) theta phi"
  by (simp add: real_spherical_harmonic_def spherical_harmonic_def Let_def sqrt_4_8)

text \<open>
  Claim C9, amended. The two versions' angular amplitudes agree for every \<open>(l, m)\<close>
  other than \<open>(1, 1)\<close> and \<open>(1, -1)\<close> (so for \<open>(0,0)\<close>, for \<open>(1,0)\<close>, and outside the
  table, where both are \<open>0\<close>), and there the densities agree too. For \<open>(1, 1)\<close> and
  \<open>(1, -1)\<close> they differ by the normalisation (\<open>sqrt (3 / (4 PI))\<close> against
  \<open>sqrt (3 / (8 PI))\<close>) and, for \<open>(1, -1)\<close>, by the sign: the amplitude of
  \<^verbatim>\<open>Multiple Orbitals.cpp\<close> is \<open>sqrt 2\<close> times (for \<open>(1, -1)\<close>: \<open>- sqrt 2\<close> times) the
  other, and its density is twice the other.
\<close>

theorem harmonics_compared:
  "((orb_l orbital, orb_m orbital) \<notin> {(1, 1), (1, - 1)} \<longrightarrow>
      real_spherical_harmonic orbital theta phi
        = spherical_harmonic (orb_l orbital) (orb_m orbital) theta phi
      \<and> probability_density orbital r theta phi time
        = probability_density_nlm (orb_n orbital) (orb_l orbital) (orb_m orbital) r theta phi time)
   \<and> (orb_l orbital = 1 \<and> orb_m orbital = 1 \<longrightarrow>
      real_spherical_harmonic orbital theta phi = sqrt 2 * spherical_harmonic 1 1 theta phi)
   \<and> (orb_l orbital = 1 \<and> orb_m orbital = - 1 \<longrightarrow>
      real_spherical_harmonic orbital theta phi = - sqrt 2 * spherical_harmonic 1 (- 1) theta phi)
   \<and> ((orb_l orbital, orb_m orbital) \<in> {(1, 1), (1, - 1)} \<longrightarrow>
      probability_density orbital r theta phi time
        = 2 * probability_density_nlm (orb_n orbital) (orb_l orbital) (orb_m orbital) r theta phi time)"
proof -
  have d: "(orb_l orbital, orb_m orbital) \<in> {(1, 1), (1, - 1)} \<longrightarrow>
      probability_density orbital r theta phi time
        = 2 * probability_density_nlm (orb_n orbital) (orb_l orbital) (orb_m orbital) r theta phi time"
    unfolding probability_density_def probability_density_nlm_def Let_def
    by (auto simp: harmonics_px harmonics_py density_scaled)
  have s: "(orb_l orbital, orb_m orbital) \<notin> {(1, 1), (1, - 1)} \<longrightarrow>
      probability_density orbital r theta phi time
        = probability_density_nlm (orb_n orbital) (orb_l orbital) (orb_m orbital) r theta phi time"
    using harmonics_same [of orbital theta phi]
    by (simp add: probability_density_def probability_density_nlm_def Let_def)
  from d s harmonics_same [of orbital theta phi] harmonics_px [of orbital theta phi]
    harmonics_py [of orbital theta phi]
  show ?thesis by blast
qed

text \<open>
  The theorem at the four orbitals of the catalogue.
\<close>

theorem harmonics_compared_witness:
  "real_spherical_harmonic (orbitals ! 0) 1 1 = spherical_harmonic 0 0 1 1
   \<and> real_spherical_harmonic (orbitals ! 3) 1 1 = spherical_harmonic 1 0 1 1
   \<and> real_spherical_harmonic (orbitals ! 1) 1 1 = sqrt 2 * spherical_harmonic 1 1 1 1
   \<and> real_spherical_harmonic (orbitals ! 2) 1 1 = - sqrt 2 * spherical_harmonic 1 (- 1) 1 1
   \<and> probability_density (orbitals ! 1) 1 1 1 0 = 2 * probability_density_nlm 2 1 1 1 1 1 0"
  using harmonics_compared [of "orbitals ! 0" 1 1 1 0] harmonics_compared [of "orbitals ! 3" 1 1 1 0]
    harmonics_compared [of "orbitals ! 1" 1 1 1 0] harmonics_compared [of "orbitals ! 2" 1 1 1 0]
  by (simp add: orbitals_def)

subsection \<open>The rejection bound\<close>

lemma max_prob_one [simp]: "max_prob = 1"
  by (simp add: max_prob_def)

lemma abs_one_minus_le_exp: "0 \<le> x \<Longrightarrow> \<bar>1 - x\<bar> * exp (- x) \<le> 1" for x :: real
proof -
  assume "0 \<le> x"
  then have "\<bar>1 - x\<bar> \<le> 1 + x" by simp
  also have "\<dots> \<le> exp x" by (rule exp_ge_add_one_self)
  finally have "\<bar>1 - x\<bar> * exp (- x) \<le> exp x * exp (- x)"
    by (intro mult_right_mono) simp_all
  then show ?thesis by (simp add: exp_minus)
qed

lemma square_bound:
  fixes R Y v a b :: real
  assumes "\<bar>R\<bar> \<le> a" "\<bar>Y\<bar> \<le> b" "0 \<le> v" "v \<le> 1.1"
  shows "R * Y * (R * Y) * v \<le> (a * b) * (a * b) * 1.1"
proof -
  have "\<bar>R * Y\<bar> \<le> a * b"
    unfolding abs_mult using assms(1,2) by (intro mult_mono) simp_all
  then have q: "(R * Y) * (R * Y) \<le> (a * b) * (a * b)"
    using abs_le_square_iff [of "R * Y" "a * b"] by (simp add: power2_eq_square)
  have "0 \<le> (R * Y) * (R * Y)" by simp
  with q have c: "0 \<le> (a * b) * (a * b)" by linarith
  from q assms(4) c assms(3) show ?thesis by (rule mult_mono)
qed


lemma radial_1_bound: "0 \<le> r \<Longrightarrow> \<bar>radial_function 1 r\<bar> \<le> 2"
  by (simp add: radial_function_1)

lemma radial_2_bound: "0 \<le> r \<Longrightarrow> \<bar>radial_function 2 r\<bar> \<le> 1 / (2 * sqrt 2)"
proof -
  assume "0 \<le> r"
  then have "\<bar>1 - r / 2\<bar> * exp (- (r / 2)) \<le> 1"
    by (intro abs_one_minus_le_exp) simp
  then have "(1 / (2 * sqrt 2)) * (\<bar>1 - r / 2\<bar> * exp (- (r / 2))) \<le> (1 / (2 * sqrt 2)) * 1"
    by (intro mult_left_mono) simp_all
  then show ?thesis
    by (simp add: radial_function_2 abs_mult)
qed

lemma sin_cos_abs_le: "\<bar>sin a\<bar> * \<bar>cos b\<bar> \<le> 1" "\<bar>sin a\<bar> * \<bar>sin b\<bar> \<le> 1" for a b :: real
proof -
  have "\<bar>sin a\<bar> * \<bar>cos b\<bar> \<le> 1 * 1"
    by (intro mult_mono) simp_all
  then show "\<bar>sin a\<bar> * \<bar>cos b\<bar> \<le> 1" by simp
  have "\<bar>sin a\<bar> * \<bar>sin b\<bar> \<le> 1 * 1"
    by (intro mult_mono) simp_all
  then show "\<bar>sin a\<bar> * \<bar>sin b\<bar> \<le> 1" by simp
qed

lemma harmonic_s_bound:
  "orb_l orbital = 0 \<Longrightarrow> orb_m orbital = 0 \<Longrightarrow>
   \<bar>real_spherical_harmonic orbital theta phi\<bar> \<le> 0.5 * sqrt (1 / PI)"
  using PI_pos by (simp add: real_spherical_harmonic_def)

lemma harmonic_p_bound:
  "orb_l orbital = 1 \<Longrightarrow> \<bar>real_spherical_harmonic orbital theta phi\<bar> \<le> sqrt (3 / (4 * PI))"
proof -
  let ?c = "sqrt (3 / (4 * PI))"
  have c: "0 \<le> ?c" using PI_pos by simp
  have a: "\<bar>?c\<bar> = ?c" using c by (rule abs_of_nonneg)
  have 1: "\<bar>?c * cos theta\<bar> \<le> ?c"
    using mult_left_mono [OF abs_cos_le_one [of theta] c] by (simp add: abs_mult a)
  have 2: "\<bar>- ?c * sin theta * cos phi\<bar> \<le> ?c"
    using mult_left_mono [OF sin_cos_abs_le(1) [of theta phi] c] by (simp add: abs_mult mult.assoc a)
  have 3: "\<bar>- ?c * sin theta * sin phi\<bar> \<le> ?c"
    using mult_left_mono [OF sin_cos_abs_le(2) [of theta phi] c] by (simp add: abs_mult mult.assoc a)
  assume "orb_l orbital = 1"
  with 1 2 3 c show ?thesis
    by (simp add: real_spherical_harmonic_def Let_def)
qed

lemma density_le:
  assumes "\<bar>radial_function (orb_n orbital) r\<bar> \<le> a"
    "\<bar>real_spherical_harmonic orbital theta phi\<bar> \<le> b"
  shows "probability_density orbital r theta phi time \<le> (a * b) * (a * b) * 1.1"
proof -
  have "0 \<le> 1 + 0.1 * sin (VIBRATION_FREQ * time)" "1 + 0.1 * sin (VIBRATION_FREQ * time) \<le> 1.1"
    using vibration_bounds [of "VIBRATION_FREQ * time"] by simp_all
  from square_bound [OF assms this] show ?thesis
    by (simp add: probability_density_def Let_def)
qed

lemma density_s_bound:
  assumes "orb_n orbital = 1" "orb_l orbital = 0" "orb_m orbital = 0" "0 \<le> r"
  shows "probability_density orbital r theta phi time < 1"
proof -
  have "probability_density orbital r theta phi time
      \<le> (2 * (0.5 * sqrt (1 / PI))) * (2 * (0.5 * sqrt (1 / PI))) * 1.1"
    using radial_1_bound [OF assms(4)] harmonic_s_bound [OF assms(2,3)] assms(1)
    by (intro density_le) simp_all
  also have "\<dots> = 1.1 / PI"
    using PI_pos by (simp add: real_sqrt_divide)
  also have "\<dots> < 1"
    by (simp add: PI_def)
  finally show ?thesis .
qed

lemma density_p_bound:
  assumes "orb_n orbital = 2" "orb_l orbital = 1" "0 \<le> r"
  shows "probability_density orbital r theta phi time < 1"
proof -
  have "probability_density orbital r theta phi time
      \<le> ((1 / (2 * sqrt 2)) * sqrt (3 / (4 * PI))) * ((1 / (2 * sqrt 2)) * sqrt (3 / (4 * PI))) * 1.1"
    using radial_2_bound [OF assms(3)] harmonic_p_bound [OF assms(2)] assms(1)
    by (intro density_le) simp_all
  also have "\<dots> = (1 / 8) * (3 / (4 * PI)) * 1.1"
  proof -
    have a: "(1 / (2 * sqrt 2)) * (1 / (2 * sqrt 2)) = (1 / 8 :: real)" by simp
    have b: "sqrt (3 / (4 * PI)) * sqrt (3 / (4 * PI)) = 3 / (4 * PI)"
      using PI_pos by (intro real_sqrt_mult_self [THEN trans]) simp_all
    have "((1 / (2 * sqrt 2)) * sqrt (3 / (4 * PI))) * ((1 / (2 * sqrt 2)) * sqrt (3 / (4 * PI)))
        = ((1 / (2 * sqrt 2)) * (1 / (2 * sqrt 2))) * (sqrt (3 / (4 * PI)) * sqrt (3 / (4 * PI)))"
      by (simp only: mult_ac)
    then show ?thesis by (simp only: a b)
  qed
  also have "\<dots> < 1"
    by (simp add: PI_def)
  finally show ?thesis .
qed

text \<open>
  Claim C10. For each of the four orbitals of the catalogue, every \<open>r \<ge> 0\<close> (so every
  radius of the sampling domain), all angles and every time, the density is strictly
  below \<open>max_prob = 1\<close>, so the acceptance ratio \<open>density / max_prob\<close> stays below \<open>1\<close>.
\<close>

theorem density_below_max_prob:
  "\<forall>orbital \<in> set orbitals. 0 \<le> r \<longrightarrow>
     probability_density orbital r theta phi time < max_prob
     \<and> probability_density orbital r theta phi time / max_prob < 1"
proof (intro ballI impI)
  fix orbital
  assume o: "orbital \<in> set orbitals" and r: "0 \<le> r"
  from o have "orb_n orbital = 1 \<and> orb_l orbital = 0 \<and> orb_m orbital = 0
      \<or> orb_n orbital = 2 \<and> orb_l orbital = 1"
    by (auto simp: orbitals_def)
  then have "probability_density orbital r theta phi time < 1"
    using density_s_bound [of orbital r theta phi time] density_p_bound [of orbital r theta phi time] r
    by blast
  then show "probability_density orbital r theta phi time < max_prob
     \<and> probability_density orbital r theta phi time / max_prob < 1"
    by simp
qed

text \<open>
  The theorem at the 2px orbital and at the 1s orbital in the origin, where its density
  is largest.
\<close>

theorem density_below_max_prob_witness:
  "orbitals ! 1 \<in> set orbitals \<and> probability_density (orbitals ! 1) 2 1 1 0 < max_prob
   \<and> probability_density (orbitals ! 0) 0 0 0 0 / max_prob < 1"
proof -
  have m: "orbitals ! 1 \<in> set orbitals" "orbitals ! 0 \<in> set orbitals"
    by (simp_all add: orbitals_def)
  from density_below_max_prob [of 2 1 1 0] m(1)
  have 1: "probability_density (orbitals ! 1) 2 1 1 0 < max_prob" by simp
  from density_below_max_prob [of 0 0 0 0] m(2)
  have 2: "probability_density (orbitals ! 0) 0 0 0 0 / max_prob < 1" by simp
  from m(1) 1 2 show ?thesis by blast
qed

subsection \<open>Single-precision rounding around the threshold\<close>

lemma round_half_even_cases:
  "round_half_even x = \<lfloor>x\<rfloor> \<and> x - of_int \<lfloor>x\<rfloor> \<le> 1 / 2
   \<or> round_half_even x = \<lfloor>x\<rfloor> + 1 \<and> 1 / 2 \<le> x - of_int \<lfloor>x\<rfloor>"
  by (simp add: round_half_even_def Let_def)

lemma round_half_even_le:
  assumes "x \<le> of_int k"
  shows "round_half_even x \<le> k"
proof -
  from assms have f: "\<lfloor>x\<rfloor> \<le> k" by (simp add: floor_le_iff)
  show ?thesis
  proof (cases "\<lfloor>x\<rfloor> = k")
    case True
    with assms have "x = of_int k"
      using of_int_floor_le [of x] by simp
    then show ?thesis by (simp add: round_half_even_def)
  next
    case False
    with f have "\<lfloor>x\<rfloor> + 1 \<le> k" by simp
    with round_half_even_cases [of x] show ?thesis by auto
  qed
qed

lemma round_half_even_ge:
  assumes "of_int k \<le> x"
  shows "k \<le> round_half_even x"
proof -
  from assms have "k \<le> \<lfloor>x\<rfloor>" by (simp add: le_floor_iff)
  with round_half_even_cases [of x] show ?thesis by auto
qed

lemma round_half_even_above_half:
  assumes "of_int k + 1 / 2 < x"
  shows "k + 1 \<le> round_half_even x"
proof -
  from assms have f: "k \<le> \<lfloor>x\<rfloor>" by (simp add: le_floor_iff)
  show ?thesis
  proof (cases "\<lfloor>x\<rfloor> = k")
    case True
    with assms have "1 / 2 < x - of_int \<lfloor>x\<rfloor>" by simp
    with True show ?thesis by (simp add: round_half_even_def Let_def)
  next
    case False
    with f have "k + 1 \<le> \<lfloor>x\<rfloor>" by simp
    with round_half_even_cases [of x] show ?thesis by auto
  qed
qed

lemma round_half_even_upto_half:
  assumes "of_int k \<le> x" "x \<le> of_int k + 1 / 2" "even k"
  shows "round_half_even x = k"
proof -
  from assms(1,2) have "\<lfloor>x\<rfloor> = k" by (intro floor_unique) simp_all
  with assms show ?thesis by (simp add: round_half_even_def Let_def)
qed

text \<open>The exponent of a positive number.\<close>

lemma floor_log2_bounds:
  assumes "0 < x"
  shows "2 powr of_int \<lfloor>log 2 x\<rfloor> \<le> x" "x < 2 powr (of_int \<lfloor>log 2 x\<rfloor> + 1)"
proof -
  have "real_of_int \<lfloor>log 2 x\<rfloor> \<le> log 2 x" by (rule of_int_floor_le)
  moreover have "(real_of_int \<lfloor>log 2 x\<rfloor> \<le> log 2 x) = (2 powr of_int \<lfloor>log 2 x\<rfloor> \<le> x)"
    using assms by (intro le_log_iff) simp_all
  ultimately show "2 powr of_int \<lfloor>log 2 x\<rfloor> \<le> x" by (rule iffD1 [OF _ , rotated])
  have "log 2 x < real_of_int \<lfloor>log 2 x\<rfloor> + 1" by linarith
  moreover have "(log 2 x < real_of_int \<lfloor>log 2 x\<rfloor> + 1) = (x < 2 powr (of_int \<lfloor>log 2 x\<rfloor> + 1))"
    using assms by (intro log_less_iff) simp_all
  ultimately show "x < 2 powr (of_int \<lfloor>log 2 x\<rfloor> + 1)" by (rule iffD1 [OF _ , rotated])
qed

lemma floor_log2_eq:
  assumes "2 powr of_int e \<le> x" "x < 2 powr (of_int e + 1)"
  shows "\<lfloor>log 2 x\<rfloor> = e"
proof (rule floor_unique)
  have x: "0 < x" using assms(1) powr_gt_zero [of 2 "of_int e"] by linarith
  from assms(1) x show "of_int e \<le> log 2 x" by (simp add: le_log_iff)
  from assms(2) x show "log 2 x < of_int e + 1" by (simp add: log_less_iff)
qed

lemma float32_nonpos: "x \<le> 0 \<Longrightarrow> float32 x \<le> 0"
proof -
  assume x: "x \<le> 0"
  let ?ulp = "2 powr (real_of_int (max \<lfloor>log 2 \<bar>x\<bar>\<rfloor> (- 126)) - 23) :: real"
  have u: "0 < ?ulp" by simp
  with x have "x / ?ulp \<le> of_int 0" by (simp add: divide_le_0_iff)
  then have "round_half_even (x / ?ulp) \<le> 0" by (rule round_half_even_le)
  then have "of_int (round_half_even (x / ?ulp)) * ?ulp \<le> 0"
    using u by (simp add: mult_le_0_iff)
  then show ?thesis by (simp add: float32_def Let_def)
qed

lemma float32_le_half:
  assumes "x \<le> 1 / 2"
  shows "float32 x \<le> 1 / 2"
proof (cases "x \<le> 0")
  case True
  from float32_nonpos [OF this] show ?thesis by simp
next
  case False
  then have x: "0 < x" by simp
  let ?e = "max \<lfloor>log 2 \<bar>x\<bar>\<rfloor> (- 126)"
  let ?ulp = "2 powr (real_of_int ?e - 23) :: real"
  have "2 powr real_of_int \<lfloor>log 2 x\<rfloor> \<le> (2::real) powr (- 1)"
    using floor_log2_bounds(1) [OF x] assms by (simp add: powr_minus)
  then have "real_of_int \<lfloor>log 2 x\<rfloor> \<le> - 1"
    by (subst (asm) powr_le_cancel_iff) simp_all
  then have "\<lfloor>log 2 x\<rfloor> \<le> - 1" by linarith
  with x have e: "?e \<le> - 1" by simp
  define K where "K = (2::int) ^ nat (22 - ?e)"
  from e have n: "real (nat (22 - ?e)) = real_of_int (22 - ?e)" by simp
  have "real_of_int K = 2 powr real (nat (22 - ?e))"
    unfolding K_def by (simp add: powr_realpow)
  then have "of_int K * ?ulp = 2 powr (real_of_int (22 - ?e)) * ?ulp"
    by (simp only: n)
  also have "\<dots> = 2 powr (real_of_int (22 - ?e) + (real_of_int ?e - 23))"
    by (simp only: powr_add)
  also have "\<dots> = 1 / 2" by (simp add: powr_minus)
  finally have K: "of_int K * ?ulp = 1 / 2" .
  have u: "0 < ?ulp" by simp
  from assms K have "x \<le> of_int K * ?ulp" by simp
  with u have "x / ?ulp \<le> of_int K" by (simp add: divide_le_eq)
  then have "round_half_even (x / ?ulp) \<le> K" by (rule round_half_even_le)
  then have "real_of_int (round_half_even (x / ?ulp)) * ?ulp \<le> of_int K * ?ulp"
    using u by (intro mult_right_mono) simp_all
  with K have "real_of_int (round_half_even (x / ?ulp)) * ?ulp \<le> 1 / 2" by linarith
  moreover have "float32 x = real_of_int (round_half_even (x / ?ulp)) * ?ulp"
    using x by (simp add: float32_def Let_def)
  ultimately show ?thesis by (simp only:)
qed

lemma float32_positive:
  assumes "0 < x" "\<lfloor>log 2 x\<rfloor> = e" "- 126 \<le> e"
  shows "float32 x = real_of_int (round_half_even (x / 2 powr (real_of_int e - 23))) * 2 powr (real_of_int e - 23)"
  using assms by (simp add: float32_def Let_def max_def)

lemma float32_gt_half:
  assumes "1 / 2 + 1 / 2 ^ 25 < x"
  shows "1 / 2 < float32 x"
proof -
  from assms have x: "0 < x" by (simp add: add_pos_pos less_trans [rotated])
  define e where "e = \<lfloor>log 2 x\<rfloor>"
  have "(2::real) powr (- 1) < 2 powr (real_of_int e + 1)"
    using floor_log2_bounds(2) [OF x] assms unfolding e_def by (simp add: powr_minus)
  then have "- 1 < real_of_int e + 1"
    by (subst (asm) powr_less_cancel_iff) simp_all
  then have e: "- 1 \<le> e" by linarith
  let ?ulp = "2 powr (real_of_int e - 23) :: real"
  have u: "0 < ?ulp" by simp
  from e have e126: "- 126 \<le> e" by simp
  have fx: "float32 x = real_of_int (round_half_even (x / ?ulp)) * ?ulp"
    by (rule float32_positive [OF x e_def [symmetric] e126])
  show ?thesis
  proof (cases "e = - 1")
    case True
    then have ulp: "?ulp = 1 / 2 ^ 24" by (simp add: powr_minus powr_realpow [symmetric] powr_numeral)
    from assms have "real_of_int (2 ^ 23) + 1 / 2 < x / ?ulp"
      unfolding ulp by (simp add: field_simps)
    then have "2 ^ 23 + 1 \<le> round_half_even (x / ?ulp)"
      by (rule round_half_even_above_half)
    then have "real_of_int (2 ^ 23 + 1) \<le> real_of_int (round_half_even (x / ?ulp))"
      by (simp only: of_int_le_iff)
    then have "real_of_int (2 ^ 23 + 1) * ?ulp \<le> real_of_int (round_half_even (x / ?ulp)) * ?ulp"
      using u by (intro mult_right_mono) simp_all
    moreover have "1 / 2 < real_of_int (2 ^ 23 + 1) * ?ulp"
      unfolding ulp by simp
    ultimately show ?thesis unfolding fx by linarith
  next
    case False
    with e have e0: "0 \<le> e" by simp
    have m: "real_of_int (2 ^ 23) * ?ulp = 2 powr real_of_int e"
    proof -
      have "real_of_int (2 ^ 23) = 2 powr 23" by (simp add: powr_numeral)
      then have "real_of_int (2 ^ 23) * ?ulp = 2 powr (23 + (real_of_int e - 23))"
        by (simp only: powr_add)
      then show ?thesis by simp
    qed
    have "2 powr real_of_int e \<le> x"
      unfolding e_def by (rule floor_log2_bounds(1) [OF x])
    then have "real_of_int (2 ^ 23) * ?ulp \<le> x"
      by (simp only: m)
    with u have "real_of_int (2 ^ 23) \<le> x / ?ulp" by (simp add: le_divide_eq)
    then have "2 ^ 23 \<le> round_half_even (x / ?ulp)" by (rule round_half_even_ge)
    then have "real_of_int (2 ^ 23) \<le> real_of_int (round_half_even (x / ?ulp))"
      by (simp only: of_int_le_iff)
    then have "real_of_int (2 ^ 23) * ?ulp \<le> real_of_int (round_half_even (x / ?ulp)) * ?ulp"
      using u by (intro mult_right_mono) simp_all
    moreover have "1 \<le> 2 powr real_of_int e"
      using e0 by (intro ge_one_powr_ge_zero) simp_all
    ultimately show ?thesis unfolding fx m by linarith
  qed
qed

lemma float32_just_above_half:
  assumes "1 / 2 < x" "x \<le> 1 / 2 + 1 / 2 ^ 25"
  shows "float32 x = 1 / 2"
proof -
  from assms have x: "0 < x" by simp
  have "2 powr real_of_int (- 1) \<le> x" using assms(1) by (simp add: powr_minus)
  moreover have "x < 2 powr (real_of_int (- 1) + 1)" using assms(2) by simp
  ultimately have e: "\<lfloor>log 2 x\<rfloor> = - 1" by (rule floor_log2_eq)
  let ?ulp = "2 powr (real_of_int (- 1) - 23) :: real"
  have ulp: "?ulp = 1 / 2 ^ 24" by (simp add: powr_minus powr_numeral)
  have fx: "float32 x = real_of_int (round_half_even (x / ?ulp)) * ?ulp"
    by (intro float32_positive [OF x e]) simp
  have "real_of_int (2 ^ 23) \<le> x / ?ulp" "x / ?ulp \<le> real_of_int (2 ^ 23) + 1 / 2"
    using assms unfolding ulp by (simp_all add: field_simps)
  then have "round_half_even (x / ?ulp) = 2 ^ 23"
    by (rule round_half_even_upto_half) simp
  then show ?thesis unfolding fx ulp by simp
qed

lemma float32_gt_half_iff: "1 / 2 < float32 x \<longleftrightarrow> 1 / 2 + 1 / 2 ^ 25 < x"
proof
  assume "1 / 2 + 1 / 2 ^ 25 < x"
  then show "1 / 2 < float32 x" by (rule float32_gt_half)
next
  assume f: "1 / 2 < float32 x"
  show "1 / 2 + 1 / 2 ^ 25 < x"
  proof (rule ccontr)
    assume "\<not> 1 / 2 + 1 / 2 ^ 25 < x"
    then have le: "x \<le> 1 / 2 + 1 / 2 ^ 25" by simp
    show False
    proof (cases "x \<le> 1 / 2")
      case True
      from float32_le_half [OF this] f show False by simp
    next
      case False
      then have "1 / 2 < x" by simp
      from float32_just_above_half [OF this le] f show False by simp
    qed
  qed
qed

text \<open>The two numbers of the counterexample below are the binary32 numbers next to 0.1 and 0.6.\<close>

lemma float32_tenth: "float32 (1 / 10) = 13421773 / 134217728"
proof -
  have "2 powr real_of_int (- 4) \<le> (1 / 10 :: real)" by (simp add: powr_minus powr_numeral)
  moreover have "(1 / 10 :: real) < 2 powr (real_of_int (- 4) + 1)" by (simp add: powr_minus powr_numeral)
  ultimately have e: "\<lfloor>log 2 (1 / 10 :: real)\<rfloor> = - 4" by (rule floor_log2_eq)
  have ulp: "2 powr (real_of_int (- 4) - 23) = (1 / 134217728 :: real)"
    by (simp add: powr_minus powr_numeral)
  have r: "round_half_even (67108864 / 5) = 13421773"
    by (simp add: round_half_even_def Let_def)
  have "float32 (1 / 10) = real_of_int (round_half_even ((1 / 10) / 2 powr (real_of_int (- 4) - 23)))
      * 2 powr (real_of_int (- 4) - 23)"
    by (intro float32_positive [OF _ e]) simp_all
  then show ?thesis unfolding ulp by (simp add: r)
qed

lemma float32_six_tenths: "float32 (6 / 10) = 10066330 / 16777216"
proof -
  have "2 powr real_of_int (- 1) \<le> (6 / 10 :: real)" by (simp add: powr_minus)
  moreover have "(6 / 10 :: real) < 2 powr (real_of_int (- 1) + 1)" by simp
  ultimately have e: "\<lfloor>log 2 (6 / 10 :: real)\<rfloor> = - 1" by (rule floor_log2_eq)
  have ulp: "2 powr (real_of_int (- 1) - 23) = (1 / 16777216 :: real)"
    by (simp add: powr_minus powr_numeral)
  have r: "round_half_even (50331648 / 5) = 10066330"
    by (simp add: round_half_even_def Let_def)
  have "float32 (6 / 10) = real_of_int (round_half_even ((6 / 10) / 2 powr (real_of_int (- 1) - 23)))
      * 2 powr (real_of_int (- 1) - 23)"
    by (intro float32_positive [OF _ e]) simp_all
  then show ?thesis unfolding ulp by (simp add: r)
qed

lemma float32_zero [simp]: "float32 0 = 0"
  by (simp add: float32_def)

subsection \<open>The key handler and the regeneration check\<close>

lemma length_orbitals: "length orbitals = 4"
  by (simp add: orbitals_def)

lemma number_keys: "Num4 = Num1 + 3"
  by (simp add: Num1_def Num4_def)

lemma handle_key_selected:
  assumes "Num1 \<le> code" "code \<le> Num4"
  shows "handle_event st (KeyPressed code) =
     st\<lparr>current_orbital := code - Num1,
        console := console st @
          [''Switched to orbital: '' @ orb_name (orbitals ! nat (code - Num1)) @ [CHR 0x0A]],
        last_generation_time := - 100\<rparr>"
proof -
  from assms have "0 \<le> code - Num1" "code - Num1 < 4" by (simp_all add: number_keys)
  then have "(code - Num1) mod 2 ^ 64 < 4" by simp
  with assms show ?thesis
    by (simp add: handle_event_def Let_def length_orbitals)
qed

lemma handle_key_ignored:
  assumes "code < Num1 \<or> Num4 < code"
  shows "handle_event st (KeyPressed code) = st"
  using assms by (auto simp: handle_event_def)

text \<open>
  Claim C8. A key press whose index \<open>code - Num1\<close> is outside the catalogue is ignored:
  the state (so the current orbital and the last-generation time) is unchanged. A key
  press whose index is inside the catalogue makes that index the current orbital (and
  resets the last-generation time, leaving the points).
\<close>

theorem select_out_of_range_ignored:
  "(code - Num1 < 0 \<or> int (length orbitals) \<le> code - Num1 \<longrightarrow>
      handle_event st (KeyPressed code) = st)
   \<and> (0 \<le> code - Num1 \<and> code - Num1 < int (length orbitals) \<longrightarrow>
      current_orbital (handle_event st (KeyPressed code)) = code - Num1
      \<and> last_generation_time (handle_event st (KeyPressed code)) = - 100
      \<and> points (handle_event st (KeyPressed code)) = points st)"
proof (intro conjI impI)
  assume "code - Num1 < 0 \<or> int (length orbitals) \<le> code - Num1"
  then have "code < Num1 \<or> Num4 < code" by (auto simp: length_orbitals number_keys)
  then show "handle_event st (KeyPressed code) = st" by (rule handle_key_ignored)
next
  assume "0 \<le> code - Num1 \<and> code - Num1 < int (length orbitals)"
  then have k: "Num1 \<le> code" "code \<le> Num4" by (simp_all add: length_orbitals number_keys)
  show "current_orbital (handle_event st (KeyPressed code)) = code - Num1"
    "last_generation_time (handle_event st (KeyPressed code)) = - 100"
    "points (handle_event st (KeyPressed code)) = points st"
    by (simp_all add: handle_key_selected [OF k])
qed

text \<open>
  The theorem at the keys just outside the four number keys, and at \<^verbatim>\<open>Num3\<close>.
\<close>

theorem select_out_of_range_ignored_witness:
  "handle_event initial_state (KeyPressed (Num1 + 4)) = initial_state
   \<and> handle_event initial_state (KeyPressed (Num1 - 1)) = initial_state
   \<and> current_orbital (handle_event initial_state (KeyPressed (Num1 + 2))) = 2
   \<and> last_generation_time (handle_event (initial_state\<lparr>last_generation_time := 7\<rparr>)
        (KeyPressed (Num1 + 2))) = - 100"
  using select_out_of_range_ignored [of "Num1 + 4" initial_state]
    select_out_of_range_ignored [of "Num1 - 1" initial_state]
    select_out_of_range_ignored [of "Num1 + 2" initial_state]
    select_out_of_range_ignored [of "Num1 + 2" "initial_state\<lparr>last_generation_time := 7\<rparr>"]
  by (simp add: length_orbitals)

text \<open>
  The current orbital stays inside the catalogue in every reachable state.
\<close>

lemma handle_event_index:
  "0 \<le> current_orbital st \<and> current_orbital st < int (length orbitals) \<Longrightarrow>
   0 \<le> current_orbital (handle_event st ev) \<and> current_orbital (handle_event st ev) < int (length orbitals)"
  by (cases ev) (auto simp: handle_event_def Let_def length_orbitals number_keys)

lemma poll_events_index:
  "0 \<le> current_orbital st \<and> current_orbital st < int (length orbitals) \<Longrightarrow>
   0 \<le> current_orbital (poll_events st evs)
   \<and> current_orbital (poll_events st evs) < int (length orbitals)"
  unfolding poll_events_def
  by (induction evs arbitrary: st) (simp_all add: handle_event_index)

lemma regeneration_check_index:
  "regeneration_check st time generate_orbital_points = Returns st' \<Longrightarrow>
   current_orbital st' = current_orbital st"
  by (auto simp: regeneration_check_def split: if_splits option.splits)

lemma reachable_index:
  "reachable st \<Longrightarrow> 0 \<le> current_orbital st \<and> current_orbital st < int (length orbitals)"
proof (induction rule: reachable.induct)
  case reachable_initial
  show ?case by (simp add: initial_state_def length_orbitals)
next
  case (reachable_frame st events time generate_orbital_points st')
  let ?st1 = "poll_events st events"
  from reachable_frame(3) have "current_orbital st' = current_orbital ?st1"
    by (auto simp: frame_def Let_def dest: regeneration_check_index)
  with poll_events_index [OF reachable_frame(4), of events] show ?case by simp
qed

text \<open>A state right after a switch, until the next regeneration.\<close>

lemma handle_event_keeps_sentinel:
  assumes "last_generation_time st = - 100"
    "0 \<le> current_orbital st \<and> current_orbital st < int (length orbitals)"
  shows "last_generation_time (handle_event st ev) = - 100
    \<and> 0 \<le> current_orbital (handle_event st ev)
    \<and> current_orbital (handle_event st ev) < int (length orbitals)"
  using assms handle_event_index [OF assms(2), of ev]
  by (cases ev) (auto simp: handle_event_def Let_def)

lemma poll_events_snoc: "poll_events st (evs @ [ev]) = handle_event (poll_events st evs) ev"
  by (simp add: poll_events_def)

lemma poll_events_switch:
  assumes "KeyPressed code \<in> set events" "Num1 \<le> code" "code \<le> Num4"
  shows "last_generation_time (poll_events st events) = - 100
    \<and> 0 \<le> current_orbital (poll_events st events)
    \<and> current_orbital (poll_events st events) < int (length orbitals)"
  using assms(1)
proof (induction events rule: rev_induct)
  case Nil
  then show ?case by simp
next
  case (snoc ev evs)
  show ?case
  proof (cases "ev = KeyPressed code")
    case True
    from assms(2,3) have "0 \<le> code - Num1" "code - Num1 < int (length orbitals)"
      by (simp_all add: length_orbitals number_keys)
    then show ?thesis
      by (simp add: poll_events_snoc True handle_key_selected [OF assms(2,3)])
  next
    case False
    with snoc(2) have "KeyPressed code \<in> set evs" by simp
    from snoc(1) [OF this] show ?thesis
      unfolding poll_events_snoc by (intro handle_event_keeps_sentinel) simp_all
  qed
qed

text \<open>
  From the sentinel \<open>-100\<close> every clock reading is more than half a second away, after
  rounding too.
\<close>

lemma sentinel_is_stale: "0 \<le> time \<Longrightarrow> 0.5 < float32 (time - (- 100))"
proof -
  assume "0 \<le> time"
  then have "1 / 2 + 1 / 2 ^ 25 < time - (- 100)" by simp
  from float32_gt_half [OF this] show ?thesis by simp
qed

text \<open>
  Claim C4. In every state, a key press that selects an orbital of the catalogue
  (\<^verbatim>\<open>Num1\<close> to \<^verbatim>\<open>Num4\<close>) sets the last-generation time to \<open>-100\<close>, and the regeneration
  check that follows, at any clock reading \<open>time \<ge> 0\<close>, regenerates the points for the
  selected orbital, however recent the last regeneration was. The same for a whole
  frame whose pending events contain such a key press. (The clock reading is the time
  elapsed since the start, never negative.)
\<close>

theorem switch_forces_regeneration:
  "(Num1 \<le> code \<and> code \<le> Num4 \<and> 0 \<le> time \<longrightarrow>
     current_orbital (handle_event st (KeyPressed code)) = code - Num1
     \<and> last_generation_time (handle_event st (KeyPressed code)) = - 100
     \<and> regeneration_check (handle_event st (KeyPressed code)) time generate_orbital_points =
         (case generate_orbital_points (orbitals ! nat (code - Num1)) time of
            None \<Rightarrow> Hangs
          | Some new_points \<Rightarrow>
              Returns ((handle_event st (KeyPressed code))
                \<lparr>points := new_points, last_generation_time := time\<rparr>)))
   \<and> (KeyPressed code \<in> set events \<and> Num1 \<le> code \<and> code \<le> Num4 \<and> 0 \<le> time \<longrightarrow>
     last_generation_time (poll_events st events) = - 100
     \<and> frame st events time generate_orbital_points =
         (case generate_orbital_points
                 (orbitals ! nat (current_orbital (poll_events st events))) time of
            None \<Rightarrow> Hangs
          | Some new_points \<Rightarrow>
              Returns ((poll_events st events)
                \<lparr>angle := angle (poll_events st events) + ROTATION_SPEED,
                 points := new_points, last_generation_time := time\<rparr>)))"
proof (intro conjI impI; elim conjE)
  assume k: "Num1 \<le> code" "code \<le> Num4" and t: "0 \<le> time"
  let ?st = "handle_event st (KeyPressed code)"
  show c: "current_orbital ?st = code - Num1" and l: "last_generation_time ?st = - 100"
    by (simp_all add: handle_key_selected [OF k])
  from k have i: "0 \<le> code - Num1" "code - Num1 < int (length orbitals)"
    by (simp_all add: length_orbitals number_keys)
  from sentinel_is_stale [OF t] have "float32 (time - last_generation_time ?st) > 0.5"
    by (simp only: l)
  with i show "regeneration_check ?st time generate_orbital_points =
         (case generate_orbital_points (orbitals ! nat (code - Num1)) time of
            None \<Rightarrow> Hangs
          | Some new_points \<Rightarrow> Returns (?st\<lparr>points := new_points, last_generation_time := time\<rparr>))"
    by (simp add: regeneration_check_def c)
next
  assume e: "KeyPressed code \<in> set events" and k: "Num1 \<le> code" "code \<le> Num4"
    and t: "0 \<le> time"
  let ?st = "poll_events st events"
  note s = poll_events_switch [OF e k, of st]
  from s show l: "last_generation_time ?st = - 100" by simp
  from sentinel_is_stale [OF t] have "float32 (time - last_generation_time ?st) > 0.5"
    by (simp only: l)
  with s show "frame st events time generate_orbital_points =
         (case generate_orbital_points (orbitals ! nat (current_orbital ?st)) time of
            None \<Rightarrow> Hangs
          | Some new_points \<Rightarrow>
              Returns (?st\<lparr>angle := angle ?st + ROTATION_SPEED,
                 points := new_points, last_generation_time := time\<rparr>))"
    by (simp add: frame_def regeneration_check_def Let_def)
qed

text \<open>
  The theorem in a state regenerated at time \<open>10\<close>, at the clock reading \<open>10\<close>: without
  a key press the check keeps the points, after the key \<^verbatim>\<open>Num1\<close> it calls the generator
  for the first orbital of the catalogue.
\<close>

theorem switch_forces_regeneration_witness:
  "regeneration_check (initial_state\<lparr>current_orbital := 2, last_generation_time := 10\<rparr>) 10
      (\<lambda>orbital time. Some [orb_color orbital])
     = Returns (initial_state\<lparr>current_orbital := 2, last_generation_time := 10\<rparr>)
   \<and> last_generation_time
        (handle_event (initial_state\<lparr>current_orbital := 2, last_generation_time := 10\<rparr>)
           (KeyPressed Num1)) = - 100
   \<and> regeneration_check
        (handle_event (initial_state\<lparr>current_orbital := 2, last_generation_time := 10\<rparr>)
           (KeyPressed Num1)) 10
        (\<lambda>orbital time. Some [orb_color orbital])
      = Returns ((handle_event (initial_state\<lparr>current_orbital := 2, last_generation_time := 10\<rparr>)
           (KeyPressed Num1))\<lparr>points := [orb_color (orbitals ! 0)], last_generation_time := 10\<rparr>)
   \<and> regeneration_check
        (handle_event (initial_state\<lparr>current_orbital := 2, last_generation_time := 10\<rparr>)
           (KeyPressed Num1)) 10
        (\<lambda>orbital time. None) = Hangs
   \<and> (\<exists>st'. frame (initial_state\<lparr>current_orbital := 2, last_generation_time := 10\<rparr>)
        [KeyPressed Num1, Other_Event] 10 (\<lambda>orbital time. Some [orb_color orbital]) = Returns st'
      \<and> last_generation_time st' = 10 \<and> points st' = [orb_color (orbitals ! 0)])"
proof -
  let ?st = "initial_state\<lparr>current_orbital := 2, last_generation_time := 10\<rparr>"
  let ?g = "\<lambda>(orbital::Orbital) (time::real). Some [orb_color orbital]"
  let ?h = "\<lambda>(orbital::Orbital) (time::real). (None :: Vector3f list option)"
  let ?evs = "[KeyPressed Num1, Other_Event]"
  have k: "Num1 \<le> Num1 \<and> Num1 \<le> Num4 \<and> (0::real) \<le> 10" by (simp add: number_keys)
  have e: "KeyPressed Num1 \<in> set ?evs \<and> Num1 \<le> Num1 \<and> Num1 \<le> Num4 \<and> (0::real) \<le> 10"
    by (simp add: number_keys)
  have 1: "regeneration_check ?st 10 ?g = Returns ?st"
    by (simp add: regeneration_check_def)
  from switch_forces_regeneration [of Num1 10 ?st ?g ?evs] k
  have 2: "last_generation_time (handle_event ?st (KeyPressed Num1)) = - 100"
    and "regeneration_check (handle_event ?st (KeyPressed Num1)) 10 ?g =
      (case ?g (orbitals ! nat (Num1 - Num1)) 10 of
         None \<Rightarrow> Hangs
       | Some new_points \<Rightarrow> Returns ((handle_event ?st (KeyPressed Num1))
            \<lparr>points := new_points, last_generation_time := 10\<rparr>))"
    by blast+
  then have 3: "regeneration_check (handle_event ?st (KeyPressed Num1)) 10 ?g
      = Returns ((handle_event ?st (KeyPressed Num1))
          \<lparr>points := [orb_color (orbitals ! 0)], last_generation_time := 10\<rparr>)"
    by simp
  from switch_forces_regeneration [of Num1 10 ?st ?h ?evs] k
  have "regeneration_check (handle_event ?st (KeyPressed Num1)) 10 ?h =
      (case ?h (orbitals ! nat (Num1 - Num1)) 10 of
         None \<Rightarrow> Hangs
       | Some new_points \<Rightarrow> Returns ((handle_event ?st (KeyPressed Num1))
            \<lparr>points := new_points, last_generation_time := 10\<rparr>))"
    by blast
  then have 4: "regeneration_check (handle_event ?st (KeyPressed Num1)) 10 ?h = Hangs"
    by simp
  have p: "current_orbital (poll_events ?st ?evs) = 0"
    by (simp add: poll_events_def number_keys handle_event_def length_orbitals)
  from switch_forces_regeneration [of Num1 10 ?st ?g ?evs] e
  have "frame ?st ?evs 10 ?g =
         (case ?g (orbitals ! nat (current_orbital (poll_events ?st ?evs))) 10 of
            None \<Rightarrow> Hangs
          | Some new_points \<Rightarrow>
              Returns ((poll_events ?st ?evs)
                \<lparr>angle := angle (poll_events ?st ?evs) + ROTATION_SPEED,
                 points := new_points, last_generation_time := 10\<rparr>))"
    by blast
  with p have 5: "\<exists>st'. frame ?st ?evs 10 ?g = Returns st'
      \<and> last_generation_time st' = 10 \<and> points st' = [orb_color (orbitals ! 0)]"
    by simp
  from 1 2 3 4 5 show ?thesis by blast
qed

lemma regeneration_check_keeps:
  "\<not> 1 / 2 < float32 (time - last_generation_time st) \<Longrightarrow>
   regeneration_check st time generate_orbital_points = Returns st"
  by (simp add: regeneration_check_def)

lemma regeneration_check_regenerates:
  "1 / 2 < float32 (time - last_generation_time st) \<Longrightarrow>
   0 \<le> current_orbital st \<Longrightarrow> current_orbital st < int (length orbitals) \<Longrightarrow>
   regeneration_check st time generate_orbital_points =
     (case generate_orbital_points (orbitals ! nat (current_orbital st)) time of
        None \<Rightarrow> Hangs
      | Some new_points \<Rightarrow> Returns (st\<lparr>points := new_points, last_generation_time := time\<rparr>))"
  by (simp add: regeneration_check_def)

lemma regeneration_check_single_keeps:
  "\<not> 1 / 2 < float32 (time - snd st1) \<Longrightarrow>
   regeneration_check_single st1 time generate_orbital_points = Returns st1"
  by (simp add: regeneration_check_single_def)

lemma regeneration_check_single_regenerates:
  "1 / 2 < float32 (time - snd st1) \<Longrightarrow>
   regeneration_check_single st1 time generate_orbital_points =
     (case generate_orbital_points orbital_single time of
        None \<Rightarrow> Hangs
      | Some new_points \<Rightarrow> Returns (new_points, time))"
  by (simp add: regeneration_check_single_def)

text \<open>
  Claim C5, amended. A regeneration check at \<open>time\<close> with
  \<open>time - last_generation_time \<le> 0.5\<close> returns the state as it is: the same points, the
  same last-generation time. The check compares the single-precision difference with
  \<open>0.5\<close>, and that difference exceeds \<open>0.5\<close> exactly when the exact one exceeds
  \<open>0.5 + 1 / 2 ^ 25\<close>. So up to \<open>0.5 + 1 / 2 ^ 25\<close> the state is kept too; above it
  (with a current orbital inside the catalogue, as in every reachable state) the check
  calls the generator for the current orbital and \<open>time\<close>, replaces the points by the
  generated ones and sets the last-generation time to \<open>time\<close>, and does not return if
  the generator does not. The same for the check of the single-orbital version.
\<close>

theorem regeneration_throttle:
  "(time - last_generation_time st \<le> 0.5 \<longrightarrow>
      regeneration_check st time generate_orbital_points = Returns st)
   \<and> (time - last_generation_time st \<le> 0.5 + 1 / 2 ^ 25 \<longrightarrow>
      regeneration_check st time generate_orbital_points = Returns st)
   \<and> (0.5 + 1 / 2 ^ 25 < time - last_generation_time st
        \<and> 0 \<le> current_orbital st \<and> current_orbital st < int (length orbitals) \<longrightarrow>
      regeneration_check st time generate_orbital_points =
        (case generate_orbital_points (orbitals ! nat (current_orbital st)) time of
           None \<Rightarrow> Hangs
         | Some new_points \<Rightarrow> Returns (st\<lparr>points := new_points, last_generation_time := time\<rparr>)))
   \<and> (0.5 < float32 (time - last_generation_time st)
        \<longleftrightarrow> 0.5 + 1 / 2 ^ 25 < time - last_generation_time st)
   \<and> (time - snd st1 \<le> 0.5 \<longrightarrow>
      regeneration_check_single st1 time generate_orbital_points = Returns st1)
   \<and> (time - snd st1 \<le> 0.5 + 1 / 2 ^ 25 \<longrightarrow>
      regeneration_check_single st1 time generate_orbital_points = Returns st1)
   \<and> (0.5 + 1 / 2 ^ 25 < time - snd st1 \<longrightarrow>
      regeneration_check_single st1 time generate_orbital_points =
        (case generate_orbital_points orbital_single time of
           None \<Rightarrow> Hangs
         | Some new_points \<Rightarrow> Returns (new_points, time)))"
proof -
  let ?d = "time - last_generation_time st" and ?d1 = "time - snd st1"
  have f: "1 / 2 < float32 x \<longleftrightarrow> 1 / 2 + 1 / 2 ^ 25 < x" for x
    by (rule float32_gt_half_iff)
  have 1: "regeneration_check st time generate_orbital_points = Returns st"
    if "?d \<le> 0.5 + 1 / 2 ^ 25"
  proof -
    from that have "\<not> 1 / 2 < float32 ?d" unfolding f by simp
    then show ?thesis by (rule regeneration_check_keeps)
  qed
  have 2: "regeneration_check st time generate_orbital_points =
        (case generate_orbital_points (orbitals ! nat (current_orbital st)) time of
           None \<Rightarrow> Hangs
         | Some new_points \<Rightarrow> Returns (st\<lparr>points := new_points, last_generation_time := time\<rparr>))"
    if "0.5 + 1 / 2 ^ 25 < ?d" "0 \<le> current_orbital st" "current_orbital st < int (length orbitals)"
  proof -
    from that(1) have "1 / 2 < float32 ?d" unfolding f by simp
    from this that(2,3) show ?thesis by (rule regeneration_check_regenerates)
  qed
  have 3: "0.5 < float32 ?d \<longleftrightarrow> 0.5 + 1 / 2 ^ 25 < ?d"
    using f [of ?d] by simp
  have 4: "regeneration_check_single st1 time generate_orbital_points = Returns st1"
    if "?d1 \<le> 0.5 + 1 / 2 ^ 25"
  proof -
    from that have "\<not> 1 / 2 < float32 ?d1" unfolding f by simp
    then show ?thesis by (rule regeneration_check_single_keeps)
  qed
  have 5: "regeneration_check_single st1 time generate_orbital_points =
        (case generate_orbital_points orbital_single time of
           None \<Rightarrow> Hangs
         | Some new_points \<Rightarrow> Returns (new_points, time))"
    if "0.5 + 1 / 2 ^ 25 < ?d1"
  proof -
    from that have "1 / 2 < float32 ?d1" unfolding f by simp
    then show ?thesis by (rule regeneration_check_single_regenerates)
  qed
  have le: "x \<le> 0.5 \<Longrightarrow> x \<le> 0.5 + 1 / 2 ^ 25" for x :: real
    by simp
  from 1 2 3 4 5 le [of ?d] le [of ?d1] show ?thesis by blast
qed

text \<open>
  The theorem in a state regenerated at time \<open>10\<close>, at the clock readings \<open>10.5\<close> (kept)
  and \<open>11\<close> (regenerated), for each version.
\<close>

theorem regeneration_throttle_witness:
  "regeneration_check (initial_state\<lparr>last_generation_time := 10\<rparr>) (21 / 2)
      (\<lambda>orbital time. Some [orb_color orbital])
     = Returns (initial_state\<lparr>last_generation_time := 10\<rparr>)
   \<and> regeneration_check (initial_state\<lparr>last_generation_time := 10\<rparr>) 11
        (\<lambda>orbital time. Some [orb_color orbital])
      = Returns (initial_state\<lparr>points := [orb_color (orbitals ! 0)], last_generation_time := 11\<rparr>)
   \<and> regeneration_check_single ([], 10) (21 / 2) (\<lambda>orbital time. Some [orb_color orbital])
      = Returns ([], 10)
   \<and> regeneration_check_single ([], 10) 11 (\<lambda>orbital time. Some [orb_color orbital])
      = Returns ([orb_color orbital_single], 11)"
proof -
  let ?st = "initial_state\<lparr>last_generation_time := 10\<rparr>"
  let ?g = "\<lambda>(orbital::Orbital) (time::real). Some [orb_color orbital]"
  have i: "0 \<le> current_orbital ?st \<and> current_orbital ?st < int (length orbitals)"
    "current_orbital ?st = 0"
    by (simp_all add: initial_state_def length_orbitals)
  note low = regeneration_throttle [of "21 / 2" ?st ?g "([], 10)"]
  note high = regeneration_throttle [of 11 ?st ?g "([], 10)"]
  from low have 1: "regeneration_check ?st (21 / 2) ?g = Returns ?st" by simp
  from low have 3: "regeneration_check_single ([], 10) (21 / 2) ?g = Returns ([], 10)" by simp
  from high i have "regeneration_check ?st 11 ?g =
      (case ?g (orbitals ! nat (current_orbital ?st)) 11 of
         None \<Rightarrow> Hangs
       | Some new_points \<Rightarrow> Returns (?st\<lparr>points := new_points, last_generation_time := 11\<rparr>))"
    by simp
  with i(2) have 2: "regeneration_check ?st 11 ?g
      = Returns (initial_state\<lparr>points := [orb_color (orbitals ! 0)], last_generation_time := 11\<rparr>)"
    by (simp add: initial_state_def)
  from high have "regeneration_check_single ([], 10) 11 ?g =
        (case ?g orbital_single 11 of
           None \<Rightarrow> Hangs
         | Some new_points \<Rightarrow> Returns (new_points, 11))"
    by simp
  then have 4: "regeneration_check_single ([], 10) 11 ?g = Returns ([orb_color orbital_single], 11)"
    by simp
  from 1 2 3 4 show ?thesis by blast
qed

text \<open>
  Claim C5 as stated fails. The points are generated at the clock reading \<open>0.1f\<close> (the
  single-precision number next to 0.1). At the reading \<open>0.6f\<close> the difference of the two
  readings is above \<open>0.5\<close>, but its single-precision rounding is \<open>0.5\<close>: the check keeps
  the points and the last-generation time.
\<close>

theorem regeneration_rounded_away:
  "regeneration_check initial_state (float32 (1 / 10)) (\<lambda>orbital time. Some [orb_color orbital])
     = Returns (initial_state
         \<lparr>points := [orb_color (orbitals ! 0)], last_generation_time := float32 (1 / 10)\<rparr>)
   \<and> 0.5 < float32 (6 / 10) - float32 (1 / 10)
   \<and> regeneration_check
        (initial_state
           \<lparr>points := [orb_color (orbitals ! 0)], last_generation_time := float32 (1 / 10)\<rparr>)
        (float32 (6 / 10)) (\<lambda>orbital time. Some [])
     = Returns (initial_state
         \<lparr>points := [orb_color (orbitals ! 0)], last_generation_time := float32 (1 / 10)\<rparr>)
   \<and> float32 (6 / 10) \<noteq> float32 (1 / 10)"
proof -
  let ?t0 = "float32 (1 / 10)" and ?t1 = "float32 (6 / 10)"
  let ?g = "\<lambda>(orbital::Orbital) (time::real). Some [orb_color orbital]"
  let ?st = "initial_state\<lparr>points := [orb_color (orbitals ! 0)], last_generation_time := ?t0\<rparr>"
  have t0: "0 \<le> ?t0" unfolding float32_tenth by simp
  have d: "?t1 - ?t0 = 67108867 / 134217728"
    unfolding float32_tenth float32_six_tenths by simp
  have "float32 (?t0 - last_generation_time initial_state) > 0.5"
    using sentinel_is_stale [OF t0] by (simp add: initial_state_def)
  then have 1: "regeneration_check initial_state ?t0 ?g = Returns ?st"
    by (simp add: regeneration_check_def initial_state_def length_orbitals)
  have 2: "0.5 < ?t1 - ?t0" unfolding d by simp
  have "float32 (?t1 - ?t0) = 1 / 2"
    unfolding d by (rule float32_just_above_half) simp_all
  then have 3: "regeneration_check ?st ?t1 (\<lambda>orbital time. Some []) = Returns ?st"
    by (simp add: regeneration_check_def)
  have 4: "?t1 \<noteq> ?t0" unfolding float32_tenth float32_six_tenths by simp
  from 1 2 3 4 show ?thesis by blast
qed

end
